theory Spec2Isabelle
  imports Complex_Main "HOL-Library.Sublist"
begin

section \<open>Python floats (IEEE-754 binary64) as used by the monitor\<close>

text \<open>
  The monitor adds two prices, subtracts the sum from \<^verbatim>\<open>1.00\<close>, compares the sum with three
  thresholds and formats four numbers with \<^verbatim>\<open>:.4f\<close>. A Python float is a binary64 value: a
  finite value is the rational it denotes (\<open>Fin 0\<close> is \<open>+0.0\<close>), and the four special values
  are constructors of their own. Every arithmetic result is rounded to the nearest binary64
  value, ties to even, and overflows to an infinity.
\<close>

datatype pyfloat = Fin rat | NegZero | PosInf | NegInf | NaN

fun bitlen :: "nat \<Rightarrow> nat" where
  "bitlen n = (if n = 0 then 0 else Suc (bitlen (n div 2)))"

declare bitlen.simps [simp del]

definition ilog2 :: "rat \<Rightarrow> int" where
  \<comment> \<open>\<open>\<lfloor>log\<^sub>2 a\<rfloor>\<close> for \<open>a > 0\<close>, by the bit length of an integer\<close>
  "ilog2 a = (if 1 \<le> a then int (bitlen (nat \<lfloor>a\<rfloor>)) - 1
              else - int (bitlen (nat (\<lceil>1 / a\<rceil> - 1))))"

definition pow2 :: "int \<Rightarrow> rat" where
  "pow2 e = (if 0 \<le> e then 2 ^ nat e else 1 / 2 ^ nat (- e))"

definition round_half_even :: "rat \<Rightarrow> int" where
  "round_half_even q =
     (let f = \<lfloor>q\<rfloor>; d = q - of_int f
      in if d < 1 / 2 then f else if 1 / 2 < d then f + 1
         else if even f then f else f + 1)"

definition fl :: "rat \<Rightarrow> pyfloat" where
  \<comment> \<open>round to nearest binary64, ties to even: 53 significant bits, least exponent \<open>-1074\<close>\<close>
  "fl r =
     (if r = 0 then Fin 0
      else let a = \<bar>r\<bar>;
               e = max (ilog2 a - 52) (- 1074);
               v = of_int (round_half_even (a / pow2 e)) * pow2 e
           in if 2 ^ 1024 \<le> v then (if r < 0 then NegInf else PosInf)
              else if v = 0 then (if r < 0 then NegZero else Fin 0)
              else Fin (if r < 0 then - v else v))"

fun fadd :: "pyfloat \<Rightarrow> pyfloat \<Rightarrow> pyfloat" where
  "fadd NaN _ = NaN"
| "fadd _ NaN = NaN"
| "fadd PosInf NegInf = NaN"
| "fadd NegInf PosInf = NaN"
| "fadd PosInf _ = PosInf"
| "fadd _ PosInf = PosInf"
| "fadd NegInf _ = NegInf"
| "fadd _ NegInf = NegInf"
| "fadd NegZero NegZero = NegZero"
| "fadd NegZero (Fin y) = Fin y"
| "fadd (Fin x) NegZero = Fin x"
| "fadd (Fin x) (Fin y) = fl (x + y)"

fun fneg :: "pyfloat \<Rightarrow> pyfloat" where
  "fneg NaN = NaN"
| "fneg PosInf = NegInf"
| "fneg NegInf = PosInf"
| "fneg NegZero = Fin 0"
| "fneg (Fin x) = (if x = 0 then NegZero else Fin (- x))"

definition fsub :: "pyfloat \<Rightarrow> pyfloat \<Rightarrow> pyfloat" where
  "fsub a b = fadd a (fneg b)"

fun flt :: "pyfloat \<Rightarrow> pyfloat \<Rightarrow> bool" where
  "flt NaN _ = False"
| "flt _ NaN = False"
| "flt PosInf _ = False"
| "flt _ PosInf = True"
| "flt _ NegInf = False"
| "flt NegInf _ = True"
| "flt NegZero NegZero = False"
| "flt NegZero (Fin y) = (0 < y)"
| "flt (Fin x) NegZero = (x < 0)"
| "flt (Fin x) (Fin y) = (x < y)"

subsection \<open>The format \<^verbatim>\<open>:.4f\<close>\<close>

definition digit_char :: "nat \<Rightarrow> char" where
  "digit_char d = ''0123456789'' ! d"

fun show_nat :: "nat \<Rightarrow> string" where
  "show_nat n = (if n < 10 then [digit_char n]
                 else show_nat (n div 10) @ [digit_char (n mod 10)])"

declare show_nat.simps [simp del]

definition pad4 :: "nat \<Rightarrow> string" where
  "pad4 k = [digit_char (k div 1000 mod 10), digit_char (k div 100 mod 10),
             digit_char (k div 10 mod 10), digit_char (k mod 10)]"

definition round4 :: "rat \<Rightarrow> rat" where
  \<comment> \<open>the value rounded to four fractional digits, ties to even\<close>
  "round4 r = of_int (round_half_even (r * 10000)) / 10000"

definition show_dec4 :: "bool \<Rightarrow> nat \<Rightarrow> string" where
  \<comment> \<open>sign, and the magnitude in units of \<open>10\<^sup>-\<^sup>4\<close>\<close>
  "show_dec4 neg k =
     (if neg then ''-'' else '''') @ show_nat (k div 10000) @ ''.'' @ pad4 (k mod 10000)"

fun fmt4 :: "pyfloat \<Rightarrow> string" where
  "fmt4 NaN = ''nan''"
| "fmt4 PosInf = ''inf''"
| "fmt4 NegInf = ''-inf''"
| "fmt4 NegZero = ''-0.0000''"
| "fmt4 (Fin r) = show_dec4 (r < 0) (nat (round_half_even (\<bar>r\<bar> * 10000)))"

text \<open>Reading a formatted number back, to say what the written string denotes.\<close>

definition digit_val :: "char \<Rightarrow> nat" where
  \<comment> \<open>the value of a decimal digit\<close>
  "digit_val c = of_char c - 48"

definition read_nat :: "string \<Rightarrow> nat" where
  "read_nat s = foldl (\<lambda>a c. 10 * a + digit_val c) 0 s"

definition dec4_value :: "string \<Rightarrow> rat" where
  \<comment> \<open>the number a string of the form \<^verbatim>\<open>[-]digits.dddd\<close> denotes\<close>
  "dec4_value s =
     (case s of
        [] \<Rightarrow> 0
      | c # t \<Rightarrow>
          if c = CHR ''-'' then - (of_nat (read_nat (filter (\<lambda>c. c \<noteq> CHR ''.'') t)) / 10000)
          else of_nat (read_nat (filter (\<lambda>c. c \<noteq> CHR ''.'') s)) / 10000)"

section \<open>Configuration, monitor object and the world it acts on\<close>

text \<open>
  The JSON configuration is a dictionary. Its top-level keys may be absent (the code reads
  three of them with \<^verbatim>\<open>.get(key, default)\<close> and three with \<^verbatim>\<open>[key]\<close>), so every top-level
  field is optional and \<open>None\<close> is an absent key. The objects of the \<^verbatim>\<open>markets\<close> list and the
  \<^verbatim>\<open>thresholds\<close> object carry the keys of the default configuration.
\<close>

record market =
  market_id :: string
  name :: string
  api_endpoint :: string

record threshold_set =
  primary :: pyfloat
  secondary :: pyfloat
  tertiary :: pyfloat

record config =
  markets :: "market list option"
  thresholds :: "threshold_set option"
  polling_interval_seconds :: "int option"
  output_csv :: "string option"
  use_google_sheets :: "bool option"
  google_sheets_name :: "string option"

datatype py_exception =
    KeyError string
  | OSError string
  | ValueError string
  | JSONDecodeError string
  | Exception string
  | KeyboardInterrupt

fun is_Exception :: "py_exception \<Rightarrow> bool" where
  \<comment> \<open>what \<^verbatim>\<open>except Exception\<close> catches: everything but \<^verbatim>\<open>KeyboardInterrupt\<close>\<close>
  "is_Exception KeyboardInterrupt = False"
| "is_Exception _ = True"

fun exc_str :: "py_exception \<Rightarrow> string" where
  \<comment> \<open>\<^verbatim>\<open>str(e)\<close>, as the f-strings print it\<close>
  "exc_str (KeyError k) = [CHR 0x27] @ k @ [CHR 0x27]"
| "exc_str (OSError s) = s"
| "exc_str (ValueError s) = s"
| "exc_str (JSONDecodeError s) = s"
| "exc_str (Exception s) = s"
| "exc_str KeyboardInterrupt = []"

type_synonym row = "string list"

datatype json_file = Malformed string | Json config

datatype event = Print string | Sleep int

record world =
  cfg_files :: "string \<rightharpoonup> json_file"
  csv_files :: "string \<rightharpoonup> row list"
  sheet :: "row list"
  out :: "event list"

text \<open>
  The files are kept by kind: what \<^verbatim>\<open>json.load\<close> makes of a configuration file (a
  dictionary, or a decoding error), and the rows of a CSV file. The monitor object is the
  one the constructor leaves: \<open>gsheet\<close> tells whether a worksheet is attached (it is not when
  the integration is unavailable, switched off, or its setup failed), and the worksheet's
  rows are in the world.
\<close>

record monitor =
  config :: config
  csv_file :: string
  gsheet :: bool

text \<open>
  What the environment decides during one pass of the loop body for one market: the outcome
  of the \<^verbatim>\<open>try\<close> block of \<^verbatim>\<open>fetch_market_prices\<close> (the placeholder price source: it returns a
  pair of floats or raises), the clock read by \<^verbatim>\<open>record_data\<close>, and whether the append to the
  CSV file and the append to the worksheet raise. A write that raises leaves its store as
  it was.
\<close>

record env =
  body :: "py_exception + (pyfloat \<times> pyfloat)"
  now :: string
  csv_error :: "py_exception option"
  sheet_error :: "py_exception option"

definition py_print :: "string \<Rightarrow> world \<Rightarrow> world" where
  "py_print s w = w\<lparr>out := out w @ [Print s]\<rparr>"

subsection \<open>\<^verbatim>\<open>load_config\<close>\<close>

definition default_config :: config where
  "default_config =
     \<lparr>markets = Some [\<lparr>market_id = ''market_id_1'', name = ''Trump wins 2024'',
                        api_endpoint = ''https://clob.polymarket.com/markets/market_id_1''\<rparr>],
      thresholds = Some \<lparr>primary = fl 1, secondary = fl (95 / 100), tertiary = fl (90 / 100)\<rparr>,
      polling_interval_seconds = Some 5,
      output_csv = Some ''arbitrage_data.csv'',
      use_google_sheets = Some False,
      google_sheets_name = Some ''Polymarket Arbitrage Data''\<rparr>"

definition load_config ::
  "string \<Rightarrow> py_exception option \<Rightarrow> world \<Rightarrow> (py_exception + config) \<times> world" where
  \<comment> \<open>\<open>write_error\<close>: whether creating the file raises\<close>
  "load_config config_file write_error w =
     (case cfg_files w config_file of
        Some (Json c) \<Rightarrow> (Inr c, w)
      | Some (Malformed msg) \<Rightarrow> (Inl (JSONDecodeError msg), w)
      | None \<Rightarrow>
          (case write_error of
             Some e \<Rightarrow> (Inl e, w)
           | None \<Rightarrow>
               (Inr default_config,
                py_print ''Please edit it with your market IDs and settings''
                  (py_print (''Created default config file: '' @ config_file)
                     (w\<lparr>cfg_files := (cfg_files w)(config_file \<mapsto> Json default_config)\<rparr>)))))"

subsection \<open>\<^verbatim>\<open>setup_csv\<close>\<close>

definition csv_header :: row where
  "csv_header = [''Timestamp_UTC'', ''Market_ID'', ''Market_Name'', ''YES_Price'', ''NO_Price'',
                 ''Sum'', ''Gap_From_One'', ''Below_1.00'', ''Below_0.95'', ''Below_0.90'']"

definition setup_csv :: "monitor \<Rightarrow> py_exception option \<Rightarrow> world \<Rightarrow> py_exception option \<times> world" where
  \<comment> \<open>\<open>write_error\<close>: whether creating the file raises\<close>
  "setup_csv self write_error w =
     (let file_exists = (csv_files w (csv_file self) \<noteq> None)
      in if \<not> file_exists then
           (case write_error of
              Some e \<Rightarrow> (Some e, w)
            | None \<Rightarrow>
                (None, py_print (''Created CSV file: '' @ csv_file self)
                         (w\<lparr>csv_files := (csv_files w)(csv_file self \<mapsto> [csv_header])\<rparr>)))
         else (None, w))"

subsection \<open>\<^verbatim>\<open>fetch_market_prices\<close>\<close>

definition fetch_error_line :: "market \<Rightarrow> py_exception \<Rightarrow> string" where
  "fetch_error_line market ex = ''Error fetching prices for '' @ name market @ '': '' @ exc_str ex"

definition fetch_market_prices ::
  "monitor \<Rightarrow> env \<Rightarrow> market \<Rightarrow> world
     \<Rightarrow> (py_exception + (pyfloat option \<times> pyfloat option)) \<times> world" where
  "fetch_market_prices self e market w =
     (case body e of
        Inr (yes_price, no_price) \<Rightarrow> (Inr (Some yes_price, Some no_price), w)
      | Inl ex \<Rightarrow>
          if is_Exception ex
          then (Inr (None, None),
                py_print (fetch_error_line market ex) w)
          else (Inl ex, w))"

subsection \<open>\<^verbatim>\<open>record_data\<close>\<close>

definition yes_no :: "bool \<Rightarrow> string" where
  "yes_no b = (if b then ''YES'' else ''NO'')"

definition observation_row ::
  "threshold_set \<Rightarrow> market \<Rightarrow> string \<Rightarrow> pyfloat \<Rightarrow> pyfloat \<Rightarrow> row" where
  \<comment> \<open>the lines from \<^verbatim>\<open>price_sum = ...\<close> to the end of \<^verbatim>\<open>row = [...]\<close>\<close>
  "observation_row ths market timestamp yes_price no_price =
     (let price_sum = fadd yes_price no_price;
          gap = fsub (Fin 1) price_sum;
          below_primary = yes_no (flt price_sum (primary ths));
          below_secondary = yes_no (flt price_sum (secondary ths));
          below_tertiary = yes_no (flt price_sum (tertiary ths))
      in [timestamp, market_id market, name market,
          fmt4 yes_price, fmt4 no_price, fmt4 price_sum, fmt4 gap,
          below_primary, below_secondary, below_tertiary])"

definition alert_glyph :: string where
  "alert_glyph = [CHR 0xC3, CHR 0xB0, CHR 0xC5, CHR 0xB8, CHR 0xC5, CHR 0xA1, CHR 0xC2, CHR 0xA8]"

definition alert_line :: "market \<Rightarrow> pyfloat \<Rightarrow> pyfloat \<Rightarrow> string" where
  "alert_line market yes_price no_price =
     alert_glyph @ '' ARBITRAGE FOUND! '' @ name market @ '': '' @
     ''YES='' @ fmt4 yes_price @ '' + NO='' @ fmt4 no_price @ '' = '' @
     fmt4 (fadd yes_price no_price) @ '' '' @
     ''(Gap: '' @ fmt4 (fsub (Fin 1) (fadd yes_price no_price)) @ '')''"

definition stored_rows :: "world \<Rightarrow> string \<Rightarrow> row list" where
  \<comment> \<open>the rows of the CSV file at a path; a missing file has none\<close>
  "stored_rows w path = (case csv_files w path of None \<Rightarrow> [] | Some rs \<Rightarrow> rs)"

definition csv_append :: "string \<Rightarrow> row \<Rightarrow> world \<Rightarrow> world" where
  \<comment> \<open>\<^verbatim>\<open>open(path, 'a')\<close> creates a missing file; \<^verbatim>\<open>writerow\<close> adds the row at the end\<close>
  "csv_append path r w = w\<lparr>csv_files := (csv_files w)(path \<mapsto> stored_rows w path @ [r])\<rparr>"

definition sheet_error_line :: "py_exception \<Rightarrow> string" where
  "sheet_error_line ex = ''Error writing to Google Sheets: '' @ exc_str ex"

definition record_data ::
  "monitor \<Rightarrow> env \<Rightarrow> market \<Rightarrow> pyfloat \<Rightarrow> pyfloat \<Rightarrow> world \<Rightarrow> (py_exception + pyfloat) \<times> world" where
  "record_data self e market yes_price no_price w =
     (let timestamp = now e;
          price_sum = fadd yes_price no_price;
          gap = fsub (Fin 1) price_sum
      in case thresholds (config self) of
           None \<Rightarrow> (Inl (KeyError ''thresholds''), w)
         | Some ths \<Rightarrow>
             (let r = observation_row ths market timestamp yes_price no_price
              in case csv_error e of
                   Some ex \<Rightarrow> (Inl ex, w)
                 | None \<Rightarrow>
                     (let w1 = csv_append (csv_file self) r w
                      in case (if gsheet self then sheet_error e else None) of
                           Some ex \<Rightarrow>
                             if is_Exception ex
                             then (let w2 = py_print (sheet_error_line ex) w1;
                                       w3 = (if flt price_sum (primary ths)
                                             then py_print (alert_line market yes_price no_price) w2
                                             else w2)
                                   in (Inr gap, w3))
                             else (Inl ex, w1)
                         | None \<Rightarrow>
                             (let w2 = (if gsheet self then w1\<lparr>sheet := sheet w1 @ [r]\<rparr> else w1);
                                  w3 = (if flt price_sum (primary ths)
                                        then py_print (alert_line market yes_price no_price) w2
                                        else w2)
                              in (Inr gap, w3)))))"

subsection \<open>\<^verbatim>\<open>monitor_markets\<close>\<close>

definition ok_glyph :: string where
  "ok_glyph = [CHR 0xC3, CHR 0xA2, CHR 0xC5, CHR 0x93, CHR 0xE2, CHR 0x80, CHR 0x9C]"

definition fail_glyph :: string where
  "fail_glyph = [CHR 0xC3, CHR 0xA2, CHR 0xC5, CHR 0x93, CHR 0xE2, CHR 0x80, CHR 0x94]"

definition ok_line :: "market \<Rightarrow> pyfloat \<Rightarrow> pyfloat \<Rightarrow> pyfloat \<Rightarrow> string" where
  "ok_line market yes_price no_price gap =
     ''  '' @ ok_glyph @ '' '' @ name market @ '': '' @
     ''YES='' @ fmt4 yes_price @ '' NO='' @ fmt4 no_price @ '' '' @
     ''Sum='' @ fmt4 (fadd yes_price no_price) @ '' Gap='' @ fmt4 gap"

definition failed_line :: "market \<Rightarrow> string" where
  "failed_line market = ''  '' @ fail_glyph @ '' '' @ name market @ '': Failed to fetch prices''"

definition handle_prices ::
  "monitor \<Rightarrow> env \<Rightarrow> market \<Rightarrow> pyfloat option \<Rightarrow> pyfloat option \<Rightarrow> world
     \<Rightarrow> py_exception option \<times> world" where
  \<comment> \<open>the \<^verbatim>\<open>if ... is not None and ... is not None\<close> of the loop body\<close>
  "handle_prices self e market yes_price no_price w =
     (case (yes_price, no_price) of
        (Some y, Some n) \<Rightarrow>
          (case record_data self e market y n w of
             (Inl ex, w') \<Rightarrow> (Some ex, w')
           | (Inr gap, w') \<Rightarrow> (None, py_print (ok_line market y n gap) w'))
      | _ \<Rightarrow> (None, py_print (failed_line market) w))"

definition poll_market :: "monitor \<Rightarrow> env \<Rightarrow> market \<Rightarrow> world \<Rightarrow> py_exception option \<times> world" where
  \<comment> \<open>the body of \<^verbatim>\<open>for market in self.config['markets']\<close>\<close>
  "poll_market self e market w =
     (case fetch_market_prices self e market w of
        (Inl ex, w') \<Rightarrow> (Some ex, w')
      | (Inr (yes_price, no_price), w') \<Rightarrow> handle_prices self e market yes_price no_price w')"

fun poll_markets ::
  "monitor \<Rightarrow> (nat \<Rightarrow> env) \<Rightarrow> nat \<Rightarrow> market list \<Rightarrow> world \<Rightarrow> py_exception option \<times> world" where
  \<comment> \<open>the \<^verbatim>\<open>for\<close> loop; \<open>envs i\<close> is the environment met by the market at position \<open>i\<close>\<close>
  "poll_markets self envs i [] w = (None, w)"
| "poll_markets self envs i (m # ms) w =
     (case poll_market self (envs i) m w of
        (Some ex, w') \<Rightarrow> (Some ex, w')
      | (None, w') \<Rightarrow> poll_markets self envs (Suc i) ms w')"

definition show_int :: "int \<Rightarrow> string" where
  "show_int i = (if i < 0 then ''-'' @ show_nat (nat (- i)) else show_nat (nat i))"

text \<open>
  One entry of the environment per iteration of \<^verbatim>\<open>while True\<close>: the clock printed in the
  iteration line, the environments of the markets by position, and whether Ctrl+C arrives
  during \<^verbatim>\<open>time.sleep\<close>. The loop has no exit of its own, so a finite list of entries is a
  finite prefix of a run: when the list is used up the monitor is still \<open>Running\<close>.
\<close>

record tick_env =
  tick_now :: string
  polls :: "nat \<Rightarrow> env"
  interrupted :: bool

datatype run_state = Running | Stopped | Crashed py_exception

definition rule60 :: string where
  "rule60 = replicate 60 (CHR ''='')"

definition stop_prints :: "monitor \<Rightarrow> world \<Rightarrow> world" where
  \<comment> \<open>the handler of \<^verbatim>\<open>except KeyboardInterrupt\<close>\<close>
  "stop_prints self w =
     (let w1 = py_print ([CHR 0x0A, CHR 0x0A] @ rule60) w;
          w2 = py_print ''Monitor stopped by user'' w1;
          w3 = py_print (''Data saved to: '' @ csv_file self) w2;
          w4 = (if gsheet self then py_print ''Google Sheets updated'' w3 else w3)
      in py_print rule60 w4)"

definition iteration_line :: "nat \<Rightarrow> string \<Rightarrow> string" where
  "iteration_line iteration ts =
     [CHR 0x0A] @ ''[Iteration '' @ show_nat iteration @ ''] '' @ ts @ '' UTC''"

fun monitor_loop :: "monitor \<Rightarrow> nat \<Rightarrow> tick_env list \<Rightarrow> world \<Rightarrow> run_state \<times> world" where
  \<comment> \<open>\<^verbatim>\<open>while True\<close> inside \<^verbatim>\<open>try ... except KeyboardInterrupt\<close>\<close>
  "monitor_loop self iteration [] w = (Running, w)"
| "monitor_loop self iteration (t # ts) w =
     (let iteration' = iteration + 1;
          w1 = py_print (iteration_line iteration' (tick_now t)) w
      in case markets (config self) of
           None \<Rightarrow> (Crashed (KeyError ''markets''), w1)
         | Some ms \<Rightarrow>
             (case poll_markets self (polls t) 0 ms w1 of
                (Some ex, w2) \<Rightarrow>
                  if ex = KeyboardInterrupt then (Stopped, stop_prints self w2)
                  else (Crashed ex, w2)
              | (None, w2) \<Rightarrow>
                  (case polling_interval_seconds (config self) of
                     None \<Rightarrow> (Crashed (KeyError ''polling_interval_seconds''), w2)
                   | Some secs \<Rightarrow>
                       if secs < 0
                       then (Crashed (ValueError ''sleep length must be non-negative''), w2)
                       else (let w3 = w2\<lparr>out := out w2 @ [Sleep secs]\<rparr>
                             in if interrupted t then (Stopped, stop_prints self w3)
                                else monitor_loop self iteration' ts w3))))"

definition monitor_markets :: "monitor \<Rightarrow> tick_env list \<Rightarrow> world \<Rightarrow> run_state \<times> world" where
  "monitor_markets self ticks w =
     (let w1 = py_print rule60 (py_print ''Polymarket Arbitrage Monitor Started'' (py_print rule60 w))
      in case markets (config self) of
           None \<Rightarrow> (Crashed (KeyError ''markets''), w1)
         | Some ms \<Rightarrow>
             (let w2 = py_print (''Monitoring '' @ show_nat (length ms) @ '' markets'') w1
              in case polling_interval_seconds (config self) of
                   None \<Rightarrow> (Crashed (KeyError ''polling_interval_seconds''), w2)
                 | Some secs \<Rightarrow>
                     (let w3 = py_print (''Polling interval: '' @ show_int secs @ '' seconds'') w2;
                          w4 = py_print (''Output: '' @ csv_file self) w3;
                          w5 = (if gsheet self then py_print ''Google Sheets: ENABLED'' w4 else w4);
                          w6 = py_print rule60 (py_print ''Press Ctrl+C to stop'' w5)
                      in monitor_loop self 0 ticks w6)))"

text \<open>
  The durable store over its whole life: with the destination fixed, each run of the
  program opens the sink once (\<^verbatim>\<open>setup_csv\<close> in the constructor) and then appends through
  \<^verbatim>\<open>record_data\<close>; no other code touches the file. One step is one such call that returned
  to its caller.
\<close>

inductive sink_step :: "string \<Rightarrow> world \<Rightarrow> world \<Rightarrow> bool" for path :: string where
  opened: "csv_file self = path \<Longrightarrow> setup_csv self write_error w = (r, w') \<Longrightarrow> sink_step path w w'"
| appended: "csv_file self = path \<Longrightarrow> record_data self e market yes_price no_price w = (r, w')
             \<Longrightarrow> sink_step path w w'"

section \<open>Environments used in the statements\<close>

definition mirror_down :: "py_exception \<Rightarrow> env \<Rightarrow> env" where
  \<comment> \<open>the same environment, with the worksheet append raising\<close>
  "mirror_down ex e = e\<lparr>sheet_error := Some ex\<rparr>"

definition mirror_up :: "env \<Rightarrow> env" where
  \<comment> \<open>the same environment, with the worksheet append succeeding\<close>
  "mirror_up e = e\<lparr>sheet_error := None\<rparr>"

definition tick_mirror :: "(env \<Rightarrow> env) \<Rightarrow> tick_env \<Rightarrow> tick_env" where
  "tick_mirror f t = t\<lparr>polls := (\<lambda>i. f (polls t i))\<rparr>"

definition is_failure_line :: "string \<Rightarrow> bool" where
  \<comment> \<open>the two lines printed for a market whose fetch failed\<close>
  "is_failure_line s \<longleftrightarrow>
     prefix ''Error fetching prices for '' s \<or> prefix (''  '' @ fail_glyph) s"

fun is_failure_event :: "event \<Rightarrow> bool" where
  "is_failure_event (Print s) = is_failure_line s"
| "is_failure_event (Sleep secs) = False"

fun expected_rows :: "threshold_set \<Rightarrow> (nat \<Rightarrow> env) \<Rightarrow> nat \<Rightarrow> market list \<Rightarrow> row list" where
  \<comment> \<open>one row for each market whose price source returned, in the order of the markets\<close>
  "expected_rows ths envs i [] = []"
| "expected_rows ths envs i (m # ms) =
     (case body (envs i) of
        Inr (y, n) \<Rightarrow> [observation_row ths m (now (envs i)) y n]
      | Inl ex \<Rightarrow> []) @ expected_rows ths envs (Suc i) ms"

fun expected_failures :: "(nat \<Rightarrow> env) \<Rightarrow> nat \<Rightarrow> market list \<Rightarrow> event list" where
  \<comment> \<open>two lines for each market whose price source raised, in the order of the markets\<close>
  "expected_failures envs i [] = []"
| "expected_failures envs i (m # ms) =
     (case body (envs i) of
        Inr p \<Rightarrow> []
      | Inl ex \<Rightarrow>
          [Print (fetch_error_line m ex),
           Print (failed_line m)]) @ expected_failures envs (Suc i) ms"

definition store_ok :: "string \<Rightarrow> world \<Rightarrow> bool" where
  \<comment> \<open>the file starts with the header row and has no other header row\<close>
  "store_ok path w \<longleftrightarrow>
     (\<exists>rows. csv_files w path = Some (csv_header # rows) \<and> csv_header \<notin> set rows)"

section \<open>Example values\<close>

definition market_a :: market where
  "market_a = \<lparr>market_id = ''a1'', name = ''Alpha'', api_endpoint = ''https://example.org/a1''\<rparr>"

definition market_b :: market where
  "market_b = \<lparr>market_id = ''b2'', name = ''Beta'', api_endpoint = ''https://example.org/b2''\<rparr>"

definition market_c :: market where
  "market_c = \<lparr>market_id = ''c3'', name = ''Gamma'', api_endpoint = ''https://example.org/c3''\<rparr>"

definition demo_thresholds :: threshold_set where
  "demo_thresholds = \<lparr>primary = fl 1, secondary = fl (95 / 100), tertiary = fl (90 / 100)\<rparr>"

definition demo_config :: config where
  "demo_config = default_config\<lparr>markets := Some [market_a, market_b, market_c]\<rparr>"

definition demo_monitor :: monitor where
  "demo_monitor = \<lparr>config = demo_config, csv_file = ''arbitrage_data.csv'', gsheet = True\<rparr>"

definition empty_world :: world where
  "empty_world = \<lparr>cfg_files = Map.empty, csv_files = Map.empty, sheet = [], out = []\<rparr>"

definition fresh_world :: world where
  \<comment> \<open>the CSV file has just been created\<close>
  "fresh_world = empty_world\<lparr>csv_files := [''arbitrage_data.csv'' \<mapsto> [csv_header]]\<rparr>"

definition yes_046 :: pyfloat where
  \<comment> \<open>the float \<^verbatim>\<open>0.46\<close>\<close>
  "yes_046 = fl (46 / 100)"

definition half_price :: pyfloat where
  \<comment> \<open>the float \<^verbatim>\<open>0.50\<close>\<close>
  "half_price = fl (50 / 100)"

definition quiet_env :: env where
  \<comment> \<open>prices \<^verbatim>\<open>0.46\<close> and \<^verbatim>\<open>0.50\<close>, no write raises\<close>
  "quiet_env = \<lparr>body = Inr (yes_046, half_price), now = ''2024-05-01 12:00:00'',
                csv_error = None, sheet_error = None\<rparr>"

definition edge_price :: pyfloat where
  \<comment> \<open>the float \<^verbatim>\<open>0.49996\<close>\<close>
  "edge_price = fl (49996 / 100000)"

definition edge_env :: env where
  \<comment> \<open>a sum just below parity that rounds to \<^verbatim>\<open>1.0000\<close>\<close>
  "edge_env = quiet_env\<lparr>body := Inr (edge_price, half_price)\<rparr>"

definition failing_env :: env where
  \<comment> \<open>the price source raises\<close>
  "failing_env = quiet_env\<lparr>body := Inl (Exception ''timeout'')\<rparr>"

definition disk_full :: py_exception where
  "disk_full = OSError ''[Errno 28] No space left on device''"

definition crash_tick :: tick_env where
  \<comment> \<open>the CSV append raises for the market at position 1\<close>
  "crash_tick =
     \<lparr>tick_now = ''2024-05-01 12:00:00'',
      polls = (\<lambda>i. if i = 1 then quiet_env\<lparr>csv_error := Some disk_full\<rparr> else quiet_env),
      interrupted = False\<rparr>"

definition partial_config :: config where
  \<comment> \<open>a configuration file without \<^verbatim>\<open>thresholds\<close> and \<^verbatim>\<open>polling_interval_seconds\<close>\<close>
  "partial_config = default_config\<lparr>thresholds := None, polling_interval_seconds := None\<rparr>"

definition partial_world :: world where
  "partial_world = empty_world\<lparr>cfg_files := [''config.json'' \<mapsto> Json partial_config]\<rparr>"

definition fault_tick :: tick_env where
  \<comment> \<open>the price source raises for the market at position 1\<close>
  "fault_tick =
     \<lparr>tick_now = ''2024-05-01 12:00:00'',
      polls = (\<lambda>i. if i = 1 then failing_env else quiet_env),
      interrupted = False\<rparr>"

section \<open>Evaluation rules\<close>

lemma bitlen_0: "bitlen 0 = 0"
  by (simp add: bitlen.simps)

lemma bitlen_1: "bitlen (Suc 0) = Suc 0"
  by (simp add: bitlen.simps)

lemma bitlen_numeral: "bitlen (numeral k) = Suc (bitlen (numeral k div 2))"
  by (subst bitlen.simps) simp

lemma floor_rat_numeral: "\<lfloor>numeral a / numeral b :: rat\<rfloor> = numeral a div numeral b"
  by (metis floor_divide_of_int_eq of_int_numeral)

lemma ceiling_rat_numeral: "\<lceil>numeral a / numeral b :: rat\<rceil> = - (- numeral a div numeral b)"
  using ceiling_divide_eq_div[of "numeral a" "numeral b", where ?'a = rat] by simp

lemma show_nat_small: "n < 10 \<Longrightarrow> show_nat n = [digit_char n]"
  by (subst show_nat.simps) simp

lemma show_nat_large: "\<not> n < 10 \<Longrightarrow> show_nat n = show_nat (n div 10) @ [digit_char (n mod 10)]"
  by (subst show_nat.simps) simp

lemmas float_eval =
  fl_def ilog2_def pow2_def round_half_even_def Let_def bitlen_0 bitlen_1 bitlen_numeral
  show_dec4_def pad4_def digit_char_def show_nat_small show_nat_large fsub_def
  floor_rat_numeral ceiling_rat_numeral

text \<open>The rounding agrees with the binary64 value of the literal \<^verbatim>\<open>0.46\<close>.\<close>

lemma fl_literal_046: "fl (46 / 100) = Fin (8286623314361713 / 18014398509481984)"
  by (simp add: float_eval)

section \<open>Effects of the operations on the stores\<close>

lemma stored_rows_py_print [simp]: "stored_rows (py_print s w) p = stored_rows w p"
  by (simp add: stored_rows_def py_print_def)

lemma csv_files_py_print [simp]: "csv_files (py_print s w) = csv_files w"
  by (simp add: py_print_def)

lemma sheet_py_print [simp]: "sheet (py_print s w) = sheet w"
  by (simp add: py_print_def)

lemma out_py_print [simp]: "out (py_print s w) = out w @ [Print s]"
  by (simp add: py_print_def)

lemma stored_rows_csv_append [simp]:
  "stored_rows (csv_append p r w) q = (if q = p then stored_rows w p @ [r] else stored_rows w q)"
  by (simp add: csv_append_def stored_rows_def)

lemma record_data_csv_files:
  "csv_files (snd (record_data self e m y n w)) =
     (case thresholds (config self) of
        None \<Rightarrow> csv_files w
      | Some ths \<Rightarrow>
          (case csv_error e of
             Some ex \<Rightarrow> csv_files w
           | None \<Rightarrow> csv_files (csv_append (csv_file self) (observation_row ths m (now e) y n) w)))"
  by (simp add: record_data_def Let_def split: option.splits)

lemma record_data_stored_rows:
  assumes "thresholds (config self) = Some ths" and "csv_error e = None"
  shows "stored_rows (snd (record_data self e m y n w)) p =
           (if p = csv_file self
            then stored_rows w p @ [observation_row ths m (now e) y n]
            else stored_rows w p)"
  using assms by (simp add: stored_rows_def record_data_csv_files csv_append_def)

lemma demo_simps:
  "thresholds (config demo_monitor) = Some demo_thresholds"
  "csv_file demo_monitor = ''arbitrage_data.csv''"
  "gsheet demo_monitor = True"
  "markets (config demo_monitor) = Some [market_a, market_b, market_c]"
  "polling_interval_seconds (config demo_monitor) = Some 5"
  by (simp_all add: demo_monitor_def demo_config_def default_config_def demo_thresholds_def)

section \<open>What a formatted number denotes\<close>

lemma digit_char_props:
  assumes "d < 10"
  shows "digit_val (digit_char d) = d" and "digit_char d \<noteq> CHR ''.''" and "digit_char d \<noteq> CHR ''-''"
proof -
  have "d = 0 \<or> d = 1 \<or> d = 2 \<or> d = 3 \<or> d = 4 \<or> d = 5 \<or> d = 6 \<or> d = 7 \<or> d = 8 \<or> d = 9"
    using assms by arith
  then show "digit_val (digit_char d) = d" and "digit_char d \<noteq> CHR ''.''"
    and "digit_char d \<noteq> CHR ''-''"
    by (auto simp: digit_char_def digit_val_def)
qed

lemma read_nat_snoc: "read_nat (xs @ [c]) = 10 * read_nat xs + digit_val c"
  by (simp add: read_nat_def)

lemma show_nat_props:
  "read_nat (show_nat n) = n \<and> (\<forall>c \<in> set (show_nat n). c \<noteq> CHR ''.'') \<and>
   show_nat n \<noteq> [] \<and> hd (show_nat n) \<noteq> CHR ''-''"
proof (induction n rule: show_nat.induct)
  case (1 n)
  show ?case
  proof (cases "n < 10")
    case True
    then show ?thesis
      using digit_char_props [OF True]
      by (simp add: show_nat_small read_nat_def)
  next
    case False
    have m: "n mod 10 < 10"
      by simp
    show ?thesis
      using "1" [OF False] False digit_char_props [OF m]
      by (simp add: show_nat_large read_nat_snoc)
  qed
qed

lemma digits4:
  assumes "k < 10000"
  shows "10 * (10 * (10 * (10 * a + k div 1000 mod 10) + k div 100 mod 10) + k div 10 mod 10)
           + k mod 10 = a * 10000 + (k::nat)"
proof -
  define k1 where "k1 = k div 10"
  define k2 where "k2 = k1 div 10"
  define k3 where "k3 = k2 div 10"
  define m0 where "m0 = k mod 10"
  define m1 where "m1 = k1 mod 10"
  define m2 where "m2 = k2 mod 10"
  have e1: "k = 10 * k1 + m0"
    by (simp add: k1_def m0_def)
  have e2: "k1 = 10 * k2 + m1"
    by (simp add: k2_def m1_def)
  have e3: "k2 = 10 * k3 + m2"
    by (simp add: k3_def m2_def)
  have d2: "k div 100 = k2"
    by (simp add: k2_def k1_def div_mult2_eq)
  have d3: "k div 1000 = k3"
    by (simp add: k3_def k2_def k1_def div_mult2_eq)
  have "k3 < 10"
    using assms unfolding d3 [symmetric] by simp
  then have m3: "k3 mod 10 = k3"
    by simp
  have "10 * (10 * (10 * (10 * a + k3) + m2) + m1) + m0 = a * 10000 + k"
    by (subst e1, subst e2, subst e3) (simp add: algebra_simps)
  then show ?thesis
    unfolding d2 d3 m3 k1_def [symmetric] m0_def m1_def m2_def .
qed

lemma read_nat_pad4:
  assumes "k < 10000"
  shows "read_nat (xs @ pad4 k) = read_nat xs * 10000 + k"
proof -
  have d: "digit_val (digit_char (j mod 10)) = j mod 10" for j
    by (rule digit_char_props(1)) simp
  have "read_nat (xs @ pad4 k) =
      10 * (10 * (10 * (10 * read_nat xs + k div 1000 mod 10) + k div 100 mod 10) + k div 10 mod 10)
        + k mod 10"
    unfolding pad4_def read_nat_def by (simp only: foldl_append foldl.simps d)
  then show ?thesis
    unfolding digits4 [OF assms] .
qed

lemma pad4_no_dot: "\<forall>c \<in> set (pad4 k). c \<noteq> CHR ''.''"
  using digit_char_props(2) [of "j mod 10" for j]
  by (simp add: pad4_def)

lemma dec4_value_show_dec4:
  "dec4_value (show_dec4 neg k) = (if neg then - (of_nat k / 10000) else of_nat k / 10000)"
proof -
  let ?q = "k div 10000" and ?r = "k mod 10000"
  let ?body = "show_nat ?q @ ''.'' @ pad4 ?r"
  have f: "filter (\<lambda>c. c \<noteq> CHR ''.'') ?body = show_nat ?q @ pad4 ?r"
    using show_nat_props [of ?q] pad4_no_dot [of ?r] by (simp add: filter_id_conv)
  have "read_nat (show_nat ?q @ pad4 ?r) = ?q * 10000 + ?r"
    using show_nat_props [of ?q] by (simp add: read_nat_pad4)
  then have v: "read_nat (filter (\<lambda>c. c \<noteq> CHR ''.'') ?body) = k"
    unfolding f by simp
  obtain c t where ct: "show_nat ?q = c # t" "c \<noteq> CHR ''-''"
    using show_nat_props [of ?q] by (cases "show_nat ?q") auto
  show ?thesis
  proof (cases neg)
    case True
    then show ?thesis
      using v by (simp add: show_dec4_def dec4_value_def)
  next
    case False
    have "dec4_value ?body = of_nat k / 10000"
      using v ct by (simp add: dec4_value_def)
    then show ?thesis
      using False by (simp add: show_dec4_def)
  qed
qed

lemma round_half_even_nonneg: "0 \<le> q \<Longrightarrow> 0 \<le> round_half_even q"
  by (simp add: round_half_even_def Let_def)

lemma round_half_even_minus: "round_half_even (- q) = - round_half_even q"
proof (cases "q = of_int \<lfloor>q\<rfloor>")
  case True
  then have "\<lfloor>- q\<rfloor> = - \<lfloor>q\<rfloor>"
    by (metis floor_of_int of_int_minus)
  then show ?thesis
    using True by (simp add: round_half_even_def Let_def)
next
  case False
  define f where "f = \<lfloor>q\<rfloor>"
  define d where "d = q - of_int f"
  have c: "\<lfloor>- q\<rfloor> = - f - 1"
    using False by (simp add: floor_minus ceiling_altdef f_def)
  have d': "- q - of_int (- f - 1) = 1 - d"
    by (simp add: d_def)
  have lo: "0 < d"
    using False of_int_floor_le [of q] by (simp add: d_def f_def less_le)
  have par: "even (- f - 1) \<longleftrightarrow> odd f"
    by simp
  have l: "round_half_even q = (if d < 1 / 2 then f else if 1 / 2 < d then f + 1
                                 else if even f then f else f + 1)"
    by (simp add: round_half_even_def Let_def f_def d_def)
  have r: "round_half_even (- q) = (if 1 - d < 1 / 2 then - f - 1 else if 1 / 2 < 1 - d then - f
                                    else if odd f then - f - 1 else - f)"
    unfolding round_half_even_def Let_def c d' par by simp
  consider "d < 1 / 2" | "1 / 2 < d" | "d = 1 / 2"
    by linarith
  then show ?thesis
  proof cases
    case 1
    then show ?thesis unfolding l r by simp
  next
    case 2
    then show ?thesis unfolding l r by simp
  next
    case 3
    then show ?thesis unfolding l r by simp
  qed
qed

lemma dec4_value_fmt4: "dec4_value (fmt4 (Fin r)) = round4 r"
proof (cases "r < 0")
  case True
  then have "round_half_even (\<bar>r\<bar> * 10000) = - round_half_even (r * 10000)"
    using round_half_even_minus [of "r * 10000"] by simp
  moreover have "0 \<le> round_half_even (\<bar>r\<bar> * 10000)"
    by (rule round_half_even_nonneg) simp
  ultimately show ?thesis
    using True by (simp add: dec4_value_show_dec4 round4_def)
next
  case False
  then have "0 \<le> round_half_even (r * 10000)"
    by (intro round_half_even_nonneg) simp
  then show ?thesis
    using False by (simp add: dec4_value_show_dec4 round4_def)
qed

section \<open>The gap evaluator\<close>

text \<open>
  Claim C1. For every price pair and every configured threshold set, the row that
  \<^verbatim>\<open>record_data\<close> appends to the CSV file carries the timestamp, the market's id and name,
  the prices, their sum and the gap \<^verbatim>\<open>1.00 - (y + n)\<close>, each formatted with four decimals,
  and for each threshold level \<^verbatim>\<open>YES\<close> exactly when the unrounded sum is below the level.
  The string written for a finite value denotes that value rounded to four decimals.
  In the example the sum rounds to \<^verbatim>\<open>1.0000\<close> and is still reported below \<^verbatim>\<open>1.00\<close>.
\<close>

theorem gap_evaluator_record:
  assumes "thresholds (config self) = Some ths" and "csv_error e = None"
  shows "stored_rows (snd (record_data self e m y n w)) (csv_file self) =
           stored_rows w (csv_file self) @
           [[now e, market_id m, name m,
             fmt4 y, fmt4 n, fmt4 (fadd y n), fmt4 (fsub (Fin 1) (fadd y n)),
             yes_no (flt (fadd y n) (primary ths)),
             yes_no (flt (fadd y n) (secondary ths)),
             yes_no (flt (fadd y n) (tertiary ths))]] \<and>
         (\<forall>r. dec4_value (fmt4 (Fin r)) = round4 r)"
  using assms
  by (simp add: record_data_stored_rows observation_row_def Let_def dec4_value_fmt4 del: fmt4.simps)

theorem gap_evaluator_record_witness:
  "thresholds (config demo_monitor) = Some demo_thresholds \<and>
   csv_error edge_env = None \<and>
   stored_rows (snd (record_data demo_monitor edge_env market_a edge_price half_price fresh_world))
     ''arbitrage_data.csv'' =
   [csv_header,
    [''2024-05-01 12:00:00'', ''a1'', ''Alpha'', ''0.5000'', ''0.5000'', ''1.0000'', ''0.0000'',
     ''YES'', ''NO'', ''NO'']]"
proof -
  have h1: "thresholds (config demo_monitor) = Some demo_thresholds"
    by (simp add: demo_simps)
  have h2: "csv_error edge_env = None"
    by (simp add: edge_env_def quiet_env_def)
  have rows: "stored_rows fresh_world ''arbitrage_data.csv'' = [csv_header]"
    by (simp add: fresh_world_def empty_world_def stored_rows_def)
  have nm: "now edge_env = ''2024-05-01 12:00:00''"
    by (simp add: edge_env_def quiet_env_def)
  have vals: "fmt4 edge_price = ''0.5000''" "fmt4 half_price = ''0.5000''"
    "fmt4 (fadd edge_price half_price) = ''1.0000''"
    "fmt4 (fsub (Fin 1) (fadd edge_price half_price)) = ''0.0000''"
    "flt (fadd edge_price half_price) (primary demo_thresholds)"
    "\<not> flt (fadd edge_price half_price) (secondary demo_thresholds)"
    "\<not> flt (fadd edge_price half_price) (tertiary demo_thresholds)"
    by (simp_all add: demo_thresholds_def edge_price_def half_price_def float_eval)
  show ?thesis
    using gap_evaluator_record [OF h1 h2, of market_a edge_price half_price fresh_world]
    by (simp add: h1 h2 rows nm vals yes_no_def demo_simps market_a_def)
qed

text \<open>
  Claim C7. With thresholds \<^verbatim>\<open>1.00\<close>, \<^verbatim>\<open>0.95\<close>, \<^verbatim>\<open>0.90\<close>, the row written for the pair
  \<^verbatim>\<open>(0.46, 0.50)\<close> has sum \<^verbatim>\<open>0.9600\<close>, gap \<^verbatim>\<open>0.0400\<close> and the booleans YES, NO, NO; the row
  written for the pair \<^verbatim>\<open>(0.51, 0.51)\<close> has sum \<^verbatim>\<open>1.0200\<close>, gap \<^verbatim>\<open>-0.0200\<close> and three times
  NO. The numbers are the binary64 values of the decimal literals.
\<close>

theorem concrete_scenario:
  "stored_rows
     (snd (record_data
             (self\<lparr>config := (config self)\<lparr>thresholds :=
                Some \<lparr>primary = fl 1, secondary = fl (95 / 100), tertiary = fl (90 / 100)\<rparr>\<rparr>\<rparr>)
             (e\<lparr>csv_error := None\<rparr>) m (fl (46 / 100)) (fl (50 / 100)) w))
     (csv_file self) =
     stored_rows w (csv_file self) @
     [[now e, market_id m, name m, ''0.4600'', ''0.5000'', ''0.9600'', ''0.0400'',
       ''YES'', ''NO'', ''NO'']]
   \<and>
   stored_rows
     (snd (record_data
             (self\<lparr>config := (config self)\<lparr>thresholds :=
                Some \<lparr>primary = fl 1, secondary = fl (95 / 100), tertiary = fl (90 / 100)\<rparr>\<rparr>\<rparr>)
             (e\<lparr>csv_error := None\<rparr>) m (fl (51 / 100)) (fl (51 / 100)) w))
     (csv_file self) =
     stored_rows w (csv_file self) @
     [[now e, market_id m, name m, ''0.5100'', ''0.5100'', ''1.0200'', ''-0.0200'',
       ''NO'', ''NO'', ''NO'']]"
proof -
  let ?ths = "\<lparr>primary = fl 1, secondary = fl (95 / 100), tertiary = fl (90 / 100)\<rparr>"
  let ?self = "self\<lparr>config := (config self)\<lparr>thresholds := Some ?ths\<rparr>\<rparr>"
  have t: "thresholds (config ?self) = Some ?ths"
    by simp
  have c: "csv_error (e\<lparr>csv_error := None\<rparr>) = None"
    by simp
  have r: "observation_row ?ths m ts (fl (46 / 100)) (fl (50 / 100)) =
      [ts, market_id m, name m, ''0.4600'', ''0.5000'', ''0.9600'', ''0.0400'', ''YES'', ''NO'', ''NO'']"
    "observation_row ?ths m ts (fl (51 / 100)) (fl (51 / 100)) =
      [ts, market_id m, name m, ''0.5100'', ''0.5100'', ''1.0200'', ''-0.0200'', ''NO'', ''NO'', ''NO'']"
    for ts
    by (simp_all add: observation_row_def yes_no_def float_eval)
  show ?thesis
    unfolding record_data_stored_rows [OF t c] r by simp
qed

text \<open>
  Claim C8. Evaluation is deterministic: the row written for a pair, a threshold set, a
  market and a timestamp is the same whatever the monitor object, the state of the stores
  and the fate of the worksheet append are, so evaluating twice writes identical rows.
\<close>

theorem evaluation_deterministic:
  assumes "thresholds (config self1) = Some ths" and "thresholds (config self2) = Some ths"
    and "now e1 = now e2" and "csv_error e1 = None" and "csv_error e2 = None"
  shows "\<exists>r. stored_rows (snd (record_data self1 e1 m y n w1)) (csv_file self1) =
               stored_rows w1 (csv_file self1) @ [r] \<and>
             stored_rows (snd (record_data self2 e2 m y n w2)) (csv_file self2) =
               stored_rows w2 (csv_file self2) @ [r]"
  using assms by (simp add: record_data_stored_rows)

theorem evaluation_deterministic_witness:
  "thresholds (config demo_monitor) = Some demo_thresholds \<and>
   thresholds (config (demo_monitor\<lparr>gsheet := False\<rparr>)) = Some demo_thresholds \<and>
   now quiet_env = now (mirror_down (Exception ''quota'') quiet_env) \<and>
   csv_error quiet_env = None \<and>
   csv_error (mirror_down (Exception ''quota'') quiet_env) = None \<and>
   (\<exists>r. stored_rows (snd (record_data demo_monitor quiet_env market_a edge_price half_price fresh_world))
            (csv_file demo_monitor) =
          stored_rows fresh_world (csv_file demo_monitor) @ [r] \<and>
        stored_rows (snd (record_data (demo_monitor\<lparr>gsheet := False\<rparr>)
                            (mirror_down (Exception ''quota'') quiet_env)
                            market_a edge_price half_price empty_world))
            (csv_file (demo_monitor\<lparr>gsheet := False\<rparr>)) =
          stored_rows empty_world (csv_file (demo_monitor\<lparr>gsheet := False\<rparr>)) @ [r])"
proof -
  have h1: "thresholds (config demo_monitor) = Some demo_thresholds"
    by (simp add: demo_simps)
  have h2: "thresholds (config (demo_monitor\<lparr>gsheet := False\<rparr>)) = Some demo_thresholds"
    by (simp add: demo_simps)
  have h3: "now quiet_env = now (mirror_down (Exception ''quota'') quiet_env)"
    by (simp add: mirror_down_def)
  have h4: "csv_error quiet_env = None"
    by (simp add: quiet_env_def)
  have h5: "csv_error (mirror_down (Exception ''quota'') quiet_env) = None"
    by (simp add: quiet_env_def mirror_down_def)
  show ?thesis
    using evaluation_deterministic [OF h1 h2 h3 h4 h5, where m = market_a and y = edge_price
        and n = half_price and ?w1.0 = fresh_world and ?w2.0 = empty_world] h1 h2 h3 h4 h5
    by blast
qed

section \<open>The fetch boundary\<close>

text \<open>
  Claim C9. \<^verbatim>\<open>fetch_market_prices\<close> does not propagate a failure of the price source: when the
  \<^verbatim>\<open>try\<close> block raises an \<^verbatim>\<open>Exception\<close>, it prints the error and returns \<^verbatim>\<open>(None, None)\<close>.
\<close>

theorem fetch_boundary_total:
  assumes "\<forall>ex. body e = Inl ex \<longrightarrow> is_Exception ex"
  shows "(\<exists>p w'. fetch_market_prices self e m w = (Inr p, w')) \<and>
         (\<forall>ex. body e = Inl ex \<longrightarrow>
            fetch_market_prices self e m w =
              (Inr (None, None),
               py_print (fetch_error_line m ex) w))"
  using assms by (auto simp: fetch_market_prices_def split: sum.splits)

theorem fetch_boundary_total_witness:
  "body failing_env = Inl (Exception ''timeout'') \<and>
   is_Exception (Exception ''timeout'') \<and>
   fetch_market_prices demo_monitor failing_env market_b empty_world =
   (Inr (None, None), empty_world\<lparr>out := [Print ''Error fetching prices for Beta: timeout'']\<rparr>)"
proof -
  have h: "\<forall>ex. body failing_env = Inl ex \<longrightarrow> is_Exception ex"
    by (auto simp: failing_env_def)
  have b: "body failing_env = Inl (Exception ''timeout'')"
    by (simp add: failing_env_def)
  show ?thesis
    using fetch_boundary_total [OF h, where self = demo_monitor and m = market_b and w = empty_world] h b
    by (simp add: py_print_def market_b_def empty_world_def fetch_error_line_def)
qed

section \<open>The scheduler\<close>

lemma failed_line_not_alert: "failed_line m \<noteq> alert_line m' y n"
  by (simp add: failed_line_def alert_line_def alert_glyph_def)

text \<open>
  Claim C10. When either fetched price is \<^verbatim>\<open>None\<close>, the loop body appends nothing to the CSV
  file or the worksheet, prints the failure line and no alert, and the loop goes on with
  the next market.
\<close>

theorem missing_price_skips_market:
  assumes "yes = None \<or> no = None"
  shows "handle_prices self e m yes no w = (None, py_print (failed_line m) w) \<and>
         csv_files (snd (handle_prices self e m yes no w)) = csv_files w \<and>
         sheet (snd (handle_prices self e m yes no w)) = sheet w \<and>
         out (snd (handle_prices self e m yes no w)) = out w @ [Print (failed_line m)] \<and>
         (\<forall>m' y' n'. failed_line m \<noteq> alert_line m' y' n') \<and>
         (\<forall>envs i ms ex. body (envs i) = Inl ex \<and> is_Exception ex \<longrightarrow>
            poll_markets self envs i (m # ms) w =
              poll_markets self envs (Suc i) ms
                (py_print (failed_line m)
                   (py_print (fetch_error_line m ex) w)))"
proof -
  have a: "handle_prices self e m yes no w = (None, py_print (failed_line m) w)"
    using assms by (auto simp: handle_prices_def split: option.splits)
  have b: "\<And>envs i ms ex. body (envs i) = Inl ex \<Longrightarrow> is_Exception ex \<Longrightarrow>
            poll_markets self envs i (m # ms) w =
              poll_markets self envs (Suc i) ms
                (py_print (failed_line m)
                   (py_print (fetch_error_line m ex) w))"
    by (simp add: poll_market_def fetch_market_prices_def handle_prices_def)
  show ?thesis
    using a b by (simp add: failed_line_not_alert)
qed

theorem missing_price_skips_market_witness:
  "(Some half_price = None \<or> (None :: pyfloat option) = None) \<and>
   handle_prices demo_monitor quiet_env market_b (Some half_price) None fresh_world =
     (None, fresh_world\<lparr>out := [Print (failed_line market_b)]\<rparr>)"
proof -
  have h: "Some half_price = None \<or> (None :: pyfloat option) = None"
    by simp
  show ?thesis
    using missing_price_skips_market [OF h, where self = demo_monitor and e = quiet_env and m = market_b and w = fresh_world]
    by (simp add: py_print_def fresh_world_def empty_world_def)
qed

section \<open>Fan-out to the two sinks\<close>

lemma csv_files_csv_append:
  "csv_files (csv_append p r w) = (csv_files w)(p \<mapsto> stored_rows w p @ [r])"
  by (simp add: csv_append_def)

lemma stored_rows_cong: "csv_files w = csv_files w' \<Longrightarrow> stored_rows w p = stored_rows w' p"
  by (simp add: stored_rows_def)

lemma record_data_mirror:
  assumes "csv_files w = csv_files w'" and "is_Exception ex"
  shows "fst (record_data self (mirror_down ex e) m y n w) =
           fst (record_data self (mirror_up e) m y n w') \<and>
         csv_files (snd (record_data self (mirror_down ex e) m y n w)) =
           csv_files (snd (record_data self (mirror_up e) m y n w'))"
  using assms stored_rows_cong [OF assms(1)]
  by (simp add: record_data_def mirror_down_def mirror_up_def Let_def csv_files_csv_append
      split: option.splits)

lemma handle_prices_both:
  "handle_prices self e m (Some y) (Some n) w =
     (case fst (record_data self e m y n w) of
        Inl ex \<Rightarrow> (Some ex, snd (record_data self e m y n w))
      | Inr gap \<Rightarrow> (None, py_print (ok_line m y n gap) (snd (record_data self e m y n w))))"
  by (simp add: handle_prices_def split: prod.splits sum.splits)

lemma handle_prices_missing:
  "yes = None \<or> no = None \<Longrightarrow> handle_prices self e m yes no w = (None, py_print (failed_line m) w)"
  by (auto simp: handle_prices_def split: option.splits)

lemma handle_prices_mirror:
  assumes "csv_files w = csv_files w'" and "is_Exception ex"
  shows "fst (handle_prices self (mirror_down ex e) m yes no w) =
           fst (handle_prices self (mirror_up e) m yes no w') \<and>
         csv_files (snd (handle_prices self (mirror_down ex e) m yes no w)) =
           csv_files (snd (handle_prices self (mirror_up e) m yes no w'))"
proof (cases "yes = None \<or> no = None")
  case True
  then show ?thesis
    using assms by (simp add: handle_prices_missing)
next
  case False
  then obtain y n where yn: "yes = Some y" "no = Some n"
    by auto
  show ?thesis
    using record_data_mirror [OF assms, of self e m y n]
    by (simp add: yn handle_prices_both split: sum.splits)
qed

lemma poll_market_mirror:
  assumes "csv_files w = csv_files w'" and "is_Exception ex"
  shows "fst (poll_market self (mirror_down ex e) m w) = fst (poll_market self (mirror_up e) m w') \<and>
         csv_files (snd (poll_market self (mirror_down ex e) m w)) =
           csv_files (snd (poll_market self (mirror_up e) m w'))"
proof (cases "body e")
  case (Inl ex')
  then show ?thesis
    using assms
    by (simp add: poll_market_def fetch_market_prices_def mirror_down_def mirror_up_def
        handle_prices_missing)
next
  case (Inr p)
  obtain y n where p: "p = (y, n)"
    by (cases p)
  have "fetch_market_prices self (mirror_down ex e) m w = (Inr (Some y, Some n), w)"
    "fetch_market_prices self (mirror_up e) m w' = (Inr (Some y, Some n), w')"
    using Inr p by (simp_all add: fetch_market_prices_def mirror_down_def mirror_up_def)
  then show ?thesis
    using handle_prices_mirror [OF assms, of self e m "Some y" "Some n"]
    by (simp add: poll_market_def)
qed

lemma poll_markets_mirror:
  assumes "is_Exception ex"
  shows "csv_files w = csv_files w' \<Longrightarrow>
         fst (poll_markets self (\<lambda>i. mirror_down ex (envs i)) i ms w) =
           fst (poll_markets self (\<lambda>i. mirror_up (envs i)) i ms w') \<and>
         csv_files (snd (poll_markets self (\<lambda>i. mirror_down ex (envs i)) i ms w)) =
           csv_files (snd (poll_markets self (\<lambda>i. mirror_up (envs i)) i ms w'))"
proof (induction ms arbitrary: i w w')
  case Nil
  then show ?case by simp
next
  case (Cons m ms)
  obtain r1 v1 where d: "poll_market self (mirror_down ex (envs i)) m w = (r1, v1)"
    by (cases "poll_market self (mirror_down ex (envs i)) m w")
  obtain r2 v2 where u: "poll_market self (mirror_up (envs i)) m w' = (r2, v2)"
    by (cases "poll_market self (mirror_up (envs i)) m w'")
  have eq: "r1 = r2" "csv_files v1 = csv_files v2"
    using poll_market_mirror [OF Cons.prems assms, of self "envs i" m] d u by simp_all
  show ?case
  proof (cases r1)
    case None
    then show ?thesis
      using Cons.IH [OF eq(2), of "Suc i"] d u eq(1) by simp
  next
    case (Some a)
    then show ?thesis
      using d u eq by simp
  qed
qed

lemma csv_files_stop_prints [simp]: "csv_files (stop_prints self w) = csv_files w"
  by (simp add: stop_prints_def Let_def)

lemma monitor_loop_mirror:
  assumes "is_Exception ex"
  shows "csv_files w = csv_files w' \<Longrightarrow>
         fst (monitor_loop self it (map (tick_mirror (mirror_down ex)) ts) w) =
           fst (monitor_loop self it (map (tick_mirror mirror_up) ts) w') \<and>
         csv_files (snd (monitor_loop self it (map (tick_mirror (mirror_down ex)) ts) w)) =
           csv_files (snd (monitor_loop self it (map (tick_mirror mirror_up) ts) w'))"
proof (induction ts arbitrary: it w w')
  case Nil
  then show ?case by simp
next
  case (Cons t ts)
  show ?case
  proof (cases "markets (config self)")
    case None
    then show ?thesis
      using Cons.prems by (simp add: Let_def)
  next
    case (Some ms)
    let ?w1 = "py_print (iteration_line (it + 1) (tick_now t)) w"
    let ?w1' = "py_print (iteration_line (it + 1) (tick_now t)) w'"
    have start: "csv_files ?w1 = csv_files ?w1'"
      using Cons.prems by simp
    obtain r1 v1 where d: "poll_markets self (\<lambda>i. mirror_down ex (polls t i)) 0 ms ?w1 = (r1, v1)"
      by (cases "poll_markets self (\<lambda>i. mirror_down ex (polls t i)) 0 ms ?w1")
    obtain r2 v2 where u: "poll_markets self (\<lambda>i. mirror_up (polls t i)) 0 ms ?w1' = (r2, v2)"
      by (cases "poll_markets self (\<lambda>i. mirror_up (polls t i)) 0 ms ?w1'")
    have eq: "r1 = r2" "csv_files v1 = csv_files v2"
      using poll_markets_mirror [OF assms start, of self "polls t" 0 ms] d u by simp_all
    show ?thesis
    proof (cases r1)
      case (Some a)
      then show ?thesis
        using Some \<open>markets (config self) = Some ms\<close> d u eq
        by (simp add: Let_def tick_mirror_def)
    next
      case None
      have step: "csv_files (v1\<lparr>out := out v1 @ [Sleep s]\<rparr>) = csv_files (v2\<lparr>out := out v2 @ [Sleep s]\<rparr>)"
        for s
        using eq(2) by simp
      show ?thesis
        using None \<open>markets (config self) = Some ms\<close> d u eq Cons.IH [OF step]
        by (simp add: Let_def tick_mirror_def split: option.splits)
    qed
  qed
qed

lemma record_data_durable_first:
  "csv_error e = Some ex' \<Longrightarrow> snd (record_data self e m y n w) = w"
  by (simp add: record_data_def Let_def split: option.splits)

text \<open>
  Claim C3. \<^verbatim>\<open>record_data\<close> appends to the CSV file first and to the worksheet second. A
  worksheet append that raises changes neither what is in the CSV file nor what
  \<^verbatim>\<open>record_data\<close> returns, and when the CSV append raises nothing reaches the worksheet. A
  run in which every worksheet append raises ends in the same state of the scheduler, with
  the same CSV files, as the run in which none does.
\<close>

theorem mirror_isolation:
  assumes "is_Exception ex"
  shows "fst (record_data self (mirror_down ex e) m y n w) =
           fst (record_data self (mirror_up e) m y n w) \<and>
         csv_files (snd (record_data self (mirror_down ex e) m y n w)) =
           csv_files (snd (record_data self (mirror_up e) m y n w)) \<and>
         (\<forall>ex'. csv_error e = Some ex' \<longrightarrow> sheet (snd (record_data self e m y n w)) = sheet w) \<and>
         fst (monitor_loop self it (map (tick_mirror (mirror_down ex)) ts) w) =
           fst (monitor_loop self it (map (tick_mirror mirror_up) ts) w) \<and>
         csv_files (snd (monitor_loop self it (map (tick_mirror (mirror_down ex)) ts) w)) =
           csv_files (snd (monitor_loop self it (map (tick_mirror mirror_up) ts) w))"
proof -
  have a: "csv_files w = csv_files w"
    by simp
  show ?thesis
    using record_data_mirror [OF a assms, where self = self and e = e and m = m and y = y and n = n]
      monitor_loop_mirror [OF assms a, where self = self and it = it and ts = ts]
    by (simp add: record_data_durable_first)
qed

theorem mirror_isolation_witness:
  "is_Exception (Exception ''quota exceeded'') \<and>
   fst (record_data demo_monitor (mirror_down (Exception ''quota exceeded'') quiet_env)
          market_a edge_price half_price fresh_world) =
     fst (record_data demo_monitor (mirror_up quiet_env) market_a edge_price half_price fresh_world) \<and>
   fst (monitor_loop demo_monitor 0
          (map (tick_mirror (mirror_down (Exception ''quota exceeded''))) [crash_tick, crash_tick])
          fresh_world) =
     fst (monitor_loop demo_monitor 0 (map (tick_mirror mirror_up) [crash_tick, crash_tick])
          fresh_world)"
proof -
  have h: "is_Exception (Exception ''quota exceeded'')"
    by simp
  show ?thesis
    using mirror_isolation [OF h, where self = demo_monitor and e = quiet_env and m = market_a
        and y = edge_price and n = half_price and w = fresh_world and it = 0
        and ts = "[crash_tick, crash_tick]"]
    by simp
qed

section \<open>A failed append to the CSV file\<close>

lemma poll_markets_append:
  "poll_markets self envs i (xs @ ys) w =
     (case poll_markets self envs i xs w of
        (Some ex, w') \<Rightarrow> (Some ex, w')
      | (None, w') \<Rightarrow> poll_markets self envs (i + length xs) ys w')"
  by (induction xs arbitrary: i w) (auto split: prod.splits option.splits)

lemma record_data_csv_raises:
  "thresholds (config self) = Some ths \<Longrightarrow> csv_error e = Some ex \<Longrightarrow>
     record_data self e m y n w = (Inl ex, w)"
  by (simp add: record_data_def Let_def)

lemma poll_market_csv_raises:
  assumes "thresholds (config self) = Some ths" and "body e = Inr (y, n)" and "csv_error e = Some ex"
  shows "poll_market self e m w = (Some ex, w)"
  using assms
  by (simp add: poll_market_def fetch_market_prices_def handle_prices_def record_data_csv_raises)

lemma crash_tick_simps:
  "polls crash_tick 0 = quiet_env"
  "polls crash_tick (Suc 0) = quiet_env\<lparr>csv_error := Some disk_full\<rparr>"
  by (simp_all add: crash_tick_def)

lemma quiet_env_simps:
  "body quiet_env = Inr (yes_046, half_price)"
  "csv_error quiet_env = None"
  "sheet_error quiet_env = None"
  "now quiet_env = ''2024-05-01 12:00:00''"
  by (simp_all add: quiet_env_def)

lemma poll_market_a_quiet:
  "fst (poll_market demo_monitor quiet_env market_a w) = None"
  by (simp add: poll_market_def fetch_market_prices_def handle_prices_def record_data_def
      quiet_env_simps demo_simps Let_def)

text \<open>
  Claim C2, as stated, fails: \<^verbatim>\<open>monitor_markets\<close> catches \<^verbatim>\<open>KeyboardInterrupt\<close> only, so an
  exception raised by the CSV append ends the run. In the example the append raises for the
  second of three markets of the first iteration and the run ends with that exception.
\<close>

theorem durable_failure_counterexample:
  "fst (monitor_markets demo_monitor [crash_tick, crash_tick] fresh_world) = Crashed disk_full"
proof -
  have a: "fst (poll_market demo_monitor quiet_env market_a w) = None" for w
    by (rule poll_market_a_quiet)
  have b: "poll_market demo_monitor (quiet_env\<lparr>csv_error := Some disk_full\<rparr>) market_b w = (Some disk_full, w)"
    for w
    by (rule poll_market_csv_raises [where ths = demo_thresholds and y = yes_046 and n = half_price])
       (simp_all add: demo_simps quiet_env_simps)
  have c: "fst (poll_markets demo_monitor (polls crash_tick) 0 [market_a, market_b, market_c] w) = Some disk_full"
    for w
  proof -
    obtain v where pa: "poll_market demo_monitor quiet_env market_a w = (None, v)"
      using a [of w] by (metis prod.collapse)
    show ?thesis
      by (simp add: crash_tick_simps pa b)
  qed
  have d: "disk_full \<noteq> KeyboardInterrupt"
    by (simp add: disk_full_def)
  have "fst (monitor_loop demo_monitor 0 [crash_tick, crash_tick] w) = Crashed disk_full" for w
  proof -
    obtain v where "poll_markets demo_monitor (polls crash_tick) 0 [market_a, market_b, market_c]
        (py_print (iteration_line (Suc 0) (tick_now crash_tick)) w) = (Some disk_full, v)"
      using c [of "py_print (iteration_line (Suc 0) (tick_now crash_tick)) w"]
      by (metis prod.collapse)
    then show ?thesis
      using d by (simp add: demo_simps Let_def del: poll_markets.simps)
  qed
  then show ?thesis
    by (simp add: monitor_markets_def demo_simps Let_def)
qed

text \<open>
  Claim C2, amended. A failed append to the CSV file is not swallowed: the exception leaves
  \<^verbatim>\<open>record_data\<close> and \<^verbatim>\<open>monitor_markets\<close> uncaught and the run ends with it. The stores are
  as the earlier markets of the iteration left them; the later markets of the iteration
  and the later iterations are not processed.
\<close>

theorem durable_failure_terminates:
  assumes "markets (config self) = Some (pre @ m # post)"
    and "thresholds (config self) = Some ths"
    and "poll_markets self (polls t) 0 pre (py_print (iteration_line (Suc it) (tick_now t)) w) = (None, w2)"
    and "body (polls t (length pre)) = Inr (y, n)"
    and "csv_error (polls t (length pre)) = Some ex"
    and "ex \<noteq> KeyboardInterrupt"
  shows "record_data self (polls t (length pre)) m y n w2 = (Inl ex, w2) \<and>
         monitor_loop self it (t # ts) w = (Crashed ex, w2)"
proof -
  have "poll_market self (polls t (length pre)) m w2 = (Some ex, w2)"
    using assms by (simp add: poll_market_csv_raises)
  then have "poll_markets self (polls t) 0 (pre @ m # post)
               (py_print (iteration_line (Suc it) (tick_now t)) w) = (Some ex, w2)"
    using assms(3) by (simp add: poll_markets_append)
  then show ?thesis
    using assms by (simp add: Let_def record_data_csv_raises)
qed

theorem durable_failure_terminates_witness:
  "markets (config demo_monitor) = Some ([market_a] @ market_b # [market_c]) \<and>
   thresholds (config demo_monitor) = Some demo_thresholds \<and>
   body (polls crash_tick (length [market_a])) = Inr (yes_046, half_price) \<and>
   csv_error (polls crash_tick (length [market_a])) = Some disk_full \<and>
   disk_full \<noteq> KeyboardInterrupt \<and>
   monitor_loop demo_monitor 0 [crash_tick, crash_tick] fresh_world =
     (Crashed disk_full,
      snd (poll_markets demo_monitor (polls crash_tick) 0 [market_a]
             (py_print (iteration_line (Suc 0) (tick_now crash_tick)) fresh_world)))"
proof -
  let ?w1 = "py_print (iteration_line (Suc 0) (tick_now crash_tick)) fresh_world"
  let ?w2 = "snd (poll_markets demo_monitor (polls crash_tick) 0 [market_a] ?w1)"
  have h1: "markets (config demo_monitor) = Some ([market_a] @ market_b # [market_c])"
    by (simp add: demo_simps)
  have h2: "thresholds (config demo_monitor) = Some demo_thresholds"
    by (simp add: demo_simps)
  obtain v where pa: "poll_market demo_monitor quiet_env market_a ?w1 = (None, v)"
    using poll_market_a_quiet [of ?w1] by (metis prod.collapse)
  have "fst (poll_markets demo_monitor (polls crash_tick) 0 [market_a] ?w1) = None"
    by (simp add: crash_tick_simps pa)
  then have h3: "poll_markets demo_monitor (polls crash_tick) 0 [market_a] ?w1 = (None, ?w2)"
    by (metis prod.collapse)
  have h4: "body (polls crash_tick (length [market_a])) = Inr (yes_046, half_price)"
    by (simp add: crash_tick_simps quiet_env_simps)
  have h5: "csv_error (polls crash_tick (length [market_a])) = Some disk_full"
    by (simp add: crash_tick_simps)
  have h6: "disk_full \<noteq> KeyboardInterrupt"
    by (simp add: disk_full_def)
  show ?thesis
    using durable_failure_terminates [OF h1 h2 h3 h4 h5 h6, where ts = "[crash_tick]"] h1 h2 h4 h5 h6
    by simp
qed

section \<open>Loading the configuration\<close>

text \<open>
  Claim C6, as stated, fails: a configuration file that is present is returned as it is.
  In the example the file lacks two fields; \<^verbatim>\<open>load_config\<close> returns it with the fields
  still missing and writes nothing.
\<close>

theorem load_config_counterexample:
  "load_config ''config.json'' None partial_world = (Inr partial_config, partial_world) \<and>
   thresholds partial_config = None \<and>
   polling_interval_seconds partial_config = None \<and>
   partial_config \<noteq> default_config"
proof -
  have "thresholds partial_config \<noteq> thresholds default_config"
    by (simp add: partial_config_def default_config_def)
  then have "partial_config \<noteq> default_config"
    by auto
  then show ?thesis
    by (simp add: load_config_def partial_world_def empty_world_def partial_config_def)
qed

text \<open>
  Claim C6, amended. When the configuration file is absent and can be created,
  \<^verbatim>\<open>load_config\<close> returns the documented default configuration and writes it to the file.
  When the file is present, \<^verbatim>\<open>load_config\<close> returns its content as it is and leaves the
  world unchanged.
\<close>

theorem load_config_cases:
  "(cfg_files w config_file = None \<longrightarrow>
      load_config config_file None w =
        (Inr default_config,
         py_print ''Please edit it with your market IDs and settings''
           (py_print (''Created default config file: '' @ config_file)
              (w\<lparr>cfg_files := (cfg_files w)(config_file \<mapsto> Json default_config)\<rparr>)))) \<and>
   (cfg_files w config_file = Some (Json c) \<longrightarrow>
      load_config config_file write_error w = (Inr c, w))"
  by (simp add: load_config_def)

theorem load_config_cases_witness:
  "cfg_files empty_world ''config.json'' = None \<and>
   fst (load_config ''config.json'' None empty_world) = Inr default_config \<and>
   cfg_files (snd (load_config ''config.json'' None empty_world)) ''config.json'' =
     Some (Json default_config) \<and>
   cfg_files partial_world ''config.json'' = Some (Json partial_config) \<and>
   load_config ''config.json'' (Some disk_full) partial_world = (Inr partial_config, partial_world)"
proof -
  have a: "cfg_files empty_world ''config.json'' = None"
    by (simp add: empty_world_def)
  have b: "cfg_files partial_world ''config.json'' = Some (Json partial_config)"
    by (simp add: partial_world_def)
  show ?thesis
    using load_config_cases [where w = empty_world and config_file = "''config.json''"]
      load_config_cases [where w = partial_world and config_file = "''config.json''"
        and c = partial_config and write_error = "Some disk_full"] a b
    by (simp add: py_print_def)
qed

section \<open>The header of the CSV file\<close>

lemma observation_row_not_header: "observation_row ths m ts y n \<noteq> csv_header"
  by (simp add: observation_row_def csv_header_def yes_no_def Let_def)

lemma setup_csv_csv_files:
  "csv_files (snd (setup_csv self write_error w)) =
     (if csv_files w (csv_file self) = None \<and> write_error = None
      then (csv_files w)(csv_file self \<mapsto> [csv_header])
      else csv_files w)"
  by (simp add: setup_csv_def Let_def split: option.splits)

lemma sink_step_csv_files:
  assumes "sink_step path w w'"
  shows "csv_files w' = csv_files w \<or>
         (csv_files w path = None \<and> csv_files w' = (csv_files w)(path \<mapsto> [csv_header])) \<or>
         (\<exists>ths m ts y n.
            csv_files w' = (csv_files w)(path \<mapsto> stored_rows w path @ [observation_row ths m ts y n]))"
  using assms
proof cases
  case (opened self write_error r)
  then have "csv_files w' = csv_files (snd (setup_csv self write_error w))"
    by simp
  then show ?thesis
    using opened(1) by (auto simp: setup_csv_csv_files split: if_splits)
next
  case (appended self e market yes_price no_price r)
  then have "csv_files w' = csv_files (snd (record_data self e market yes_price no_price w))"
    by simp
  then have eq: "csv_files w' =
      (case thresholds (config self) of
         None \<Rightarrow> csv_files w
       | Some ths \<Rightarrow>
           (case csv_error e of
              Some ex \<Rightarrow> csv_files w
            | None \<Rightarrow>
                (csv_files w)(path \<mapsto>
                  stored_rows w path @ [observation_row ths market (now e) yes_price no_price])))"
    using appended(1) by (simp add: record_data_csv_files csv_files_csv_append split: option.splits)
  show ?thesis
  proof (cases "thresholds (config self)")
    case None
    then show ?thesis
      using eq by simp
  next
    case (Some ths)
    show ?thesis
    proof (cases "csv_error e")
      case None
      then have "csv_files w' =
          (csv_files w)(path \<mapsto>
            stored_rows w path @ [observation_row ths market (now e) yes_price no_price])"
        using eq Some by simp
      then show ?thesis
        by blast
    next
      case (Some ex)
      then show ?thesis
        using eq \<open>thresholds (config self) = Some ths\<close> by simp
    qed
  qed
qed

lemma sink_step_store_ok:
  assumes "sink_step path w w'" and "store_ok path w"
  shows "store_ok path w'"
proof -
  obtain rows where rows: "csv_files w path = Some (csv_header # rows)" "csv_header \<notin> set rows"
    using assms(2) by (auto simp: store_ok_def)
  have sr: "stored_rows w path = csv_header # rows"
    using rows by (simp add: stored_rows_def)
  from sink_step_csv_files [OF assms(1)] show ?thesis
  proof (elim disjE exE conjE)
    assume "csv_files w' = csv_files w"
    then show ?thesis
      using assms(2) by (simp add: store_ok_def)
  next
    assume "csv_files w path = None"
    then show ?thesis
      using rows by simp
  next
    fix ths m ts y n
    assume "csv_files w' = (csv_files w)(path \<mapsto> stored_rows w path @ [observation_row ths m ts y n])"
    then have "csv_files w' path = Some (csv_header # (rows @ [observation_row ths m ts y n]))"
      by (simp add: sr)
    moreover have "csv_header \<notin> set (rows @ [observation_row ths m ts y n])"
      using rows(2) observation_row_not_header [of ths m ts y n] by auto
    ultimately show ?thesis
      unfolding store_ok_def by blast
  qed
qed

lemma sink_step_prefix:
  assumes "sink_step path w w'"
  shows "prefix (stored_rows w path) (stored_rows w' path)"
  using sink_step_csv_files [OF assms]
  by (auto simp: stored_rows_def)

lemma sink_steps_store_ok:
  assumes "(sink_step path)\<^sup>*\<^sup>* w w'" and "store_ok path w"
  shows "store_ok path w'"
  using assms by (induction rule: rtranclp_induct) (auto intro: sink_step_store_ok)

text \<open>
  Claim C4. Once \<^verbatim>\<open>setup_csv\<close> has created the CSV file, however many times the sink is
  opened again and whatever is appended, across runs of the program against the same path,
  the file starts with the header row and contains it exactly once, and every later step
  keeps the rows already there, in their order, as a prefix of the file.
\<close>

theorem header_written_once:
  assumes "csv_files w0 path = None"
    and "csv_file self = path"
    and "setup_csv self None w0 = (r, w1)"
    and "(sink_step path)\<^sup>*\<^sup>* w1 w"
  shows "(\<exists>rows. csv_files w path = Some (csv_header # rows) \<and> csv_header \<notin> set rows) \<and>
         count_list (stored_rows w path) csv_header = 1 \<and>
         (\<forall>w'. sink_step path w w' \<longrightarrow> prefix (stored_rows w path) (stored_rows w' path))"
proof -
  have "csv_files w1 = csv_files (snd (setup_csv self None w0))"
    using assms(3) by simp
  then have "csv_files w1 path = Some [csv_header]"
    using assms(1,2) by (simp add: setup_csv_csv_files)
  then have "store_ok path w1"
    by (simp add: store_ok_def)
  then have ok: "store_ok path w"
    using assms(4) by (rule sink_steps_store_ok [rotated])
  then obtain rows where rows: "csv_files w path = Some (csv_header # rows)" "csv_header \<notin> set rows"
    by (auto simp: store_ok_def)
  have "count_list (stored_rows w path) csv_header = 1"
    using rows by (simp add: stored_rows_def)
  then show ?thesis
    using rows sink_step_prefix by blast
qed

theorem header_written_once_witness:
  "csv_files empty_world ''arbitrage_data.csv'' = None \<and>
   csv_file demo_monitor = ''arbitrage_data.csv'' \<and>
   count_list
     (stored_rows
        (snd (setup_csv demo_monitor None
           (snd (record_data demo_monitor quiet_env market_a half_price half_price
              (snd (setup_csv demo_monitor None empty_world))))))
        ''arbitrage_data.csv'')
     csv_header = 1"
proof -
  let ?p = "''arbitrage_data.csv''"
  let ?w1 = "snd (setup_csv demo_monitor None empty_world)"
  let ?w2 = "snd (record_data demo_monitor quiet_env market_a half_price half_price ?w1)"
  let ?w3 = "snd (setup_csv demo_monitor None ?w2)"
  have a: "csv_files empty_world ?p = None"
    by (simp add: empty_world_def)
  have b: "csv_file demo_monitor = ?p"
    by (simp add: demo_simps)
  have c: "setup_csv demo_monitor None empty_world = (fst (setup_csv demo_monitor None empty_world), ?w1)"
    by simp
  have s1: "sink_step ?p ?w1 ?w2"
    by (rule sink_step.appended [where self = demo_monitor and e = quiet_env and market = market_a
          and yes_price = half_price and no_price = half_price
          and r = "fst (record_data demo_monitor quiet_env market_a half_price half_price ?w1)"])
       (simp_all add: b)
  have s2: "sink_step ?p ?w2 ?w3"
    by (rule sink_step.opened [where self = demo_monitor and write_error = None
          and r = "fst (setup_csv demo_monitor None ?w2)"])
       (simp_all add: b)
  have star: "(sink_step ?p)\<^sup>*\<^sup>* ?w1 ?w3"
    using s1 s2 by (meson rtranclp.rtrancl_into_rtrancl rtranclp.rtrancl_refl)
  show ?thesis
    using header_written_once [OF a b c star] a b by simp
qed

section \<open>A failed fetch within an iteration\<close>

lemma failure_line_error: "is_failure_line (fetch_error_line m ex)"
  by (simp add: is_failure_line_def fetch_error_line_def)

lemma failure_line_failed: "is_failure_line (failed_line m)"
  by (simp add: is_failure_line_def failed_line_def)

lemma not_failure_line_ok: "\<not> is_failure_line (ok_line m y n g)"
  by (simp add: is_failure_line_def ok_line_def ok_glyph_def fail_glyph_def)

lemma not_failure_line_alert: "\<not> is_failure_line (alert_line m y n)"
  by (simp add: is_failure_line_def alert_line_def alert_glyph_def fail_glyph_def)

lemma not_failure_line_sheet: "\<not> is_failure_line (sheet_error_line ex)"
  by (simp add: is_failure_line_def sheet_error_line_def)

lemmas failure_line_simps =
  failure_line_error failure_line_failed not_failure_line_ok not_failure_line_alert
  not_failure_line_sheet

lemma poll_market_fetch_raises:
  assumes "body e = Inl ex" and "is_Exception ex"
  shows "poll_market self e m w =
           (None, py_print (failed_line m)
                    (py_print (fetch_error_line m ex) w))"
  using assms by (simp add: poll_market_def fetch_market_prices_def handle_prices_def)

lemma record_data_returns:
  assumes "thresholds (config self) = Some ths" and "csv_error e = None"
    and "\<forall>ex. sheet_error e = Some ex \<longrightarrow> is_Exception ex"
  shows "fst (record_data self e m y n w) = Inr (fsub (Fin 1) (fadd y n)) \<and>
         filter is_failure_event (out (snd (record_data self e m y n w))) =
           filter is_failure_event (out w)"
  using assms
  by (auto simp: record_data_def Let_def csv_append_def failure_line_simps split: option.splits)

lemma poll_market_fetch_returns:
  assumes "thresholds (config self) = Some ths" and "body e = Inr (y, n)" and "csv_error e = None"
    and "\<forall>ex. sheet_error e = Some ex \<longrightarrow> is_Exception ex"
  shows "fst (poll_market self e m w) = None \<and>
         stored_rows (snd (poll_market self e m w)) (csv_file self) =
           stored_rows w (csv_file self) @ [observation_row ths m (now e) y n] \<and>
         filter is_failure_event (out (snd (poll_market self e m w))) =
           filter is_failure_event (out w)"
proof -
  have f: "fetch_market_prices self e m w = (Inr (Some y, Some n), w)"
    using assms(2) by (simp add: fetch_market_prices_def)
  obtain v where rd: "record_data self e m y n w = (Inr (fsub (Fin 1) (fadd y n)), v)"
    using record_data_returns [OF assms(1,3,4), of m y n w] by (metis prod.collapse)
  have v: "v = snd (record_data self e m y n w)"
    using rd by simp
  have "poll_market self e m w = (None, py_print (ok_line m y n (fsub (Fin 1) (fadd y n))) v)"
    using f rd by (simp add: poll_market_def handle_prices_def)
  then show ?thesis
    using record_data_returns [OF assms(1,3,4), of m y n w]
      record_data_stored_rows [OF assms(1,3), of m y n w "csv_file self"]
    by (simp add: v failure_line_simps)
qed

lemma poll_markets_isolated:
  assumes "thresholds (config self) = Some ths"
    and "\<forall>i. csv_error (envs i) = None"
    and "\<forall>i ex. body (envs i) = Inl ex \<longrightarrow> is_Exception ex"
    and "\<forall>i ex. sheet_error (envs i) = Some ex \<longrightarrow> is_Exception ex"
  shows "fst (poll_markets self envs i ms w) = None \<and>
         stored_rows (snd (poll_markets self envs i ms w)) (csv_file self) =
           stored_rows w (csv_file self) @ expected_rows ths envs i ms \<and>
         filter is_failure_event (out (snd (poll_markets self envs i ms w))) =
           filter is_failure_event (out w) @ expected_failures envs i ms"
proof (induction ms arbitrary: i w)
  case Nil
  then show ?case by simp
next
  case (Cons m ms)
  show ?case
  proof (cases "body (envs i)")
    case (Inl ex)
    then have "is_Exception ex"
      using assms(3) by blast
    then have pm: "poll_market self (envs i) m w =
        (None, py_print (failed_line m)
                 (py_print (fetch_error_line m ex) w))"
      using Inl by (rule poll_market_fetch_raises [rotated])
    show ?thesis
      using Cons.IH [of "Suc i"
          "py_print (failed_line m)
             (py_print (fetch_error_line m ex) w)"]
      by (simp add: pm Inl failure_line_simps)
  next
    case (Inr p)
    obtain y n where p: "p = (y, n)"
      by (cases p)
    have b: "body (envs i) = Inr (y, n)"
      using Inr p by simp
    have se: "\<forall>ex. sheet_error (envs i) = Some ex \<longrightarrow> is_Exception ex"
      using assms(4) by blast
    have ce: "csv_error (envs i) = None"
      using assms(2) by blast
    note pm = poll_market_fetch_returns [OF assms(1) b ce se, of m w]
    obtain v where v: "poll_market self (envs i) m w = (None, v)"
      using pm by (metis prod.collapse)
    have v': "v = snd (poll_market self (envs i) m w)"
      using v by simp
    show ?thesis
      using Cons.IH [of "Suc i" v] pm
      by (simp add: v b v' [symmetric])
  qed
qed

lemma fault_tick_simps:
  "polls fault_tick 0 = quiet_env"
  "polls fault_tick (Suc 0) = failing_env"
  "polls fault_tick (Suc (Suc 0)) = quiet_env"
  "\<not> interrupted fault_tick"
  by (simp_all add: fault_tick_def)

lemma fault_tick_hyps:
  "\<forall>i. csv_error (polls fault_tick i) = None"
  "\<forall>i ex. body (polls fault_tick i) = Inl ex \<longrightarrow> is_Exception ex"
  "\<forall>i ex. sheet_error (polls fault_tick i) = Some ex \<longrightarrow> is_Exception ex"
  by (auto simp: fault_tick_def failing_env_def quiet_env_def)

lemma failing_env_simps:
  "body failing_env = Inl (Exception ''timeout'')"
  by (simp add: failing_env_def)

lemma quiet_row:
  "observation_row demo_thresholds m ts yes_046 half_price =
     [ts, market_id m, name m, ''0.4600'', ''0.5000'', ''0.9600'', ''0.0400'', ''YES'', ''NO'', ''NO'']"
  by (simp add: observation_row_def yes_no_def demo_thresholds_def yes_046_def half_price_def float_eval)

text \<open>
  Claim C5, as stated, fails in what the failing market leaves in the output: not one
  entry with the market's id, but two lines, both naming the market by its name. In the
  example the price source raises for the second of three markets, whose id \<^verbatim>\<open>b2\<close> occurs
  in neither line.
\<close>

theorem tick_fault_counterexample:
  "filter is_failure_event
     (out (snd (poll_markets demo_monitor (polls fault_tick) 0 [market_a, market_b, market_c]
                  fresh_world))) =
     [Print ''Error fetching prices for Beta: timeout'', Print (failed_line market_b)] \<and>
   \<not> sublist ''b2'' ''Error fetching prices for Beta: timeout'' \<and>
   \<not> sublist ''b2'' (failed_line market_b)"
proof -
  have h: "thresholds (config demo_monitor) = Some demo_thresholds"
    by (simp add: demo_simps)
  have o: "out fresh_world = []"
    by (simp add: fresh_world_def empty_world_def)
  have e: "expected_failures (polls fault_tick) 0 [market_a, market_b, market_c] =
             [Print ''Error fetching prices for Beta: timeout'', Print (failed_line market_b)]"
    by (simp add: fault_tick_simps failing_env_simps quiet_env_simps fetch_error_line_def
        market_b_def)
  have s: "\<not> sublist ''b2'' ''Error fetching prices for Beta: timeout''"
    "\<not> sublist ''b2'' (failed_line market_b)"
    by (simp_all add: sublist_Cons_right failed_line_def fail_glyph_def market_b_def)
  show ?thesis
    using poll_markets_isolated [OF h fault_tick_hyps, of 0 "[market_a, market_b, market_c]"
        fresh_world] s
    by (simp only: o e filter.simps append_Nil simp_thms)
qed

text \<open>
  Claim C5, amended. Within one iteration in which no write to the CSV file raises, the
  loop runs over all markets without an exception: every market whose price source
  returned has its row appended to the CSV file, in the order of the markets, and a market
  whose price source raised has none; each failing market adds exactly two failure lines
  to the output, \<^verbatim>\<open>Error fetching prices for <name>: <reason>\<close> and the line
  \<^verbatim>\<open><name>: Failed to fetch prices\<close>, which name the market by its name; then
  \<^verbatim>\<open>time.sleep\<close> is called with the configured interval and the next iteration begins.
\<close>

theorem tick_fault_isolation:
  assumes "thresholds (config self) = Some ths"
    and "markets (config self) = Some ms"
    and "polling_interval_seconds (config self) = Some secs"
    and "0 \<le> secs"
    and "\<not> interrupted t"
    and "\<forall>i. csv_error (polls t i) = None"
    and "\<forall>i ex. body (polls t i) = Inl ex \<longrightarrow> is_Exception ex"
    and "\<forall>i ex. sheet_error (polls t i) = Some ex \<longrightarrow> is_Exception ex"
    and "w1 = py_print (iteration_line (Suc it) (tick_now t)) w"
    and "w2 = snd (poll_markets self (polls t) 0 ms w1)"
  shows "fst (poll_markets self (polls t) 0 ms w1) = None \<and>
         stored_rows w2 (csv_file self) =
           stored_rows w (csv_file self) @ expected_rows ths (polls t) 0 ms \<and>
         filter is_failure_event (out w2) =
           filter is_failure_event (out w1) @ expected_failures (polls t) 0 ms \<and>
         monitor_loop self it (t # ts) w =
           monitor_loop self (Suc it) ts (w2\<lparr>out := out w2 @ [Sleep secs]\<rparr>)"
proof -
  note iso = poll_markets_isolated [OF assms(1,6,7,8), of 0 ms w1]
  have pm: "poll_markets self (polls t) 0 ms w1 = (None, w2)"
    using iso assms(10) by (metis prod.collapse)
  have "monitor_loop self it (t # ts) w =
          monitor_loop self (Suc it) ts (w2\<lparr>out := out w2 @ [Sleep secs]\<rparr>)"
    using assms(2,3,4,5) pm assms(9) by (simp add: Let_def)
  then show ?thesis
    using iso assms(9,10) by simp
qed

theorem tick_fault_isolation_witness:
  "thresholds (config demo_monitor) = Some demo_thresholds \<and>
   markets (config demo_monitor) = Some [market_a, market_b, market_c] \<and>
   polling_interval_seconds (config demo_monitor) = Some 5 \<and>
   \<not> interrupted fault_tick \<and>
   stored_rows
     (snd (poll_markets demo_monitor (polls fault_tick) 0 [market_a, market_b, market_c]
             (py_print (iteration_line (Suc 0) (tick_now fault_tick)) fresh_world)))
     ''arbitrage_data.csv'' =
     [csv_header,
      [''2024-05-01 12:00:00'', ''a1'', ''Alpha'', ''0.4600'', ''0.5000'', ''0.9600'', ''0.0400'',
       ''YES'', ''NO'', ''NO''],
      [''2024-05-01 12:00:00'', ''c3'', ''Gamma'', ''0.4600'', ''0.5000'', ''0.9600'', ''0.0400'',
       ''YES'', ''NO'', ''NO'']] \<and>
   fst (monitor_loop demo_monitor 0 [fault_tick] fresh_world) = Running"
proof -
  let ?w1 = "py_print (iteration_line (Suc 0) (tick_now fault_tick)) fresh_world"
  let ?w2 = "snd (poll_markets demo_monitor (polls fault_tick) 0 [market_a, market_b, market_c] ?w1)"
  have h1: "thresholds (config demo_monitor) = Some demo_thresholds"
    by (simp add: demo_simps)
  have h2: "markets (config demo_monitor) = Some [market_a, market_b, market_c]"
    by (simp add: demo_simps)
  have h3: "polling_interval_seconds (config demo_monitor) = Some 5"
    by (simp add: demo_simps)
  have h4: "(0::int) \<le> 5"
    by simp
  have h5: "\<not> interrupted fault_tick"
    by (simp add: fault_tick_simps)
  have rows: "stored_rows fresh_world (csv_file demo_monitor) = [csv_header]"
    by (simp add: fresh_world_def empty_world_def stored_rows_def demo_simps)
  have e: "expected_rows demo_thresholds (polls fault_tick) 0 [market_a, market_b, market_c] =
      [[''2024-05-01 12:00:00'', ''a1'', ''Alpha'', ''0.4600'', ''0.5000'', ''0.9600'', ''0.0400'',
        ''YES'', ''NO'', ''NO''],
       [''2024-05-01 12:00:00'', ''c3'', ''Gamma'', ''0.4600'', ''0.5000'', ''0.9600'', ''0.0400'',
        ''YES'', ''NO'', ''NO'']]"
    by (simp add: fault_tick_simps failing_env_simps quiet_env_simps quiet_row market_a_def
        market_c_def)
  note T = tick_fault_isolation [OF h1 h2 h3 h4 h5 fault_tick_hyps refl refl,
      where it = 0 and w = fresh_world and ts = "[]"]
  have r: "stored_rows ?w2 (csv_file demo_monitor) =
      stored_rows fresh_world (csv_file demo_monitor) @
      expected_rows demo_thresholds (polls fault_tick) 0 [market_a, market_b, market_c]"
    by (rule T [THEN conjunct2, THEN conjunct1])
  have l: "monitor_loop demo_monitor 0 [fault_tick] fresh_world =
      monitor_loop demo_monitor (Suc 0) [] (?w2\<lparr>out := out ?w2 @ [Sleep 5]\<rparr>)"
    by (rule T [THEN conjunct2, THEN conjunct2, THEN conjunct2])
  have p: "csv_file demo_monitor = ''arbitrage_data.csv''"
    by (simp add: demo_simps)
  have "fst (monitor_loop demo_monitor 0 [fault_tick] fresh_world) = Running"
    unfolding l by simp
  moreover have "stored_rows ?w2 ''arbitrage_data.csv'' =
      [csv_header,
       [''2024-05-01 12:00:00'', ''a1'', ''Alpha'', ''0.4600'', ''0.5000'', ''0.9600'', ''0.0400'',
        ''YES'', ''NO'', ''NO''],
       [''2024-05-01 12:00:00'', ''c3'', ''Gamma'', ''0.4600'', ''0.5000'', ''0.9600'', ''0.0400'',
        ''YES'', ''NO'', ''NO'']]"
    using r unfolding p rows [unfolded p] e by simp
  ultimately show ?thesis
    using h1 h2 h3 h5 by blast
qed

end
